theory Spec2Isabelle
  imports Main "HOL-Library.AList"
begin

section \<open>Errors\<close>

text \<open>
  A Go \<^verbatim>\<open>error\<close> is \<open>err option\<close>, \<open>None\<close> being \<^verbatim>\<open>nil\<close>. An error value is a plain
  error, an error annotated by \<^verbatim>\<open>errors.Wrap(err, msg)\<close> (go-faster/errors), or the
  aggregate built by go.uber.org/multierr.
\<close>

datatype err = Err string | Wrapped string err | Multi "err list"

text \<open>
  \<^verbatim>\<open>errors.Wrap(err, msg)\<close> at a non-nil error, which is how \<^verbatim>\<open>cmd/root.go\<close> calls it every
  time (each call stands under \<^verbatim>\<open>err != nil\<close>): the error annotated with the message. What
  the library returns at \<^verbatim>\<open>nil\<close> is not modelled, the argument being an error value.
\<close>

fun errors_Wrap :: "err \<Rightarrow> string \<Rightarrow> err" where
  "errors_Wrap e msg = Wrapped msg e"

text \<open>
  multierr (external library, modelled after its documented behaviour). An aggregate is
  kept flat: when an operand is itself an aggregate its members are spliced in
  (\<^verbatim>\<open>nested.Errors()\<close>), any other error is taken whole.
\<close>

fun flat :: "err \<Rightarrow> err list" where
  "flat (Multi es) = es"
| "flat e = [e]"

fun is_Multi :: "err \<Rightarrow> bool" where
  "is_Multi (Multi es) = True"
| "is_Multi e = False"

text \<open>
  \<^verbatim>\<open>fromSlice\<close>: no element gives \<^verbatim>\<open>nil\<close>, a single element is returned as it is; otherwise
  the \<^verbatim>\<open>nil\<close> entries are dropped, and zero survivors give \<^verbatim>\<open>nil\<close>, one survivor is returned
  itself, several give the flat aggregate. \<^verbatim>\<open>multierr.Combine(errs...)\<close> is this function.
\<close>

definition fromSlice :: "err option list \<Rightarrow> err option" where
  "fromSlice errors =
     (case errors of
        [] \<Rightarrow> None
      | [e] \<Rightarrow> e
      | _ \<Rightarrow> (case List.map_filter id errors of
                [] \<Rightarrow> None
              | [e] \<Rightarrow> Some e
              | nonNilErrs \<Rightarrow> Some (Multi (concat (map flat nonNilErrs)))))"

definition multierr_Combine :: "err option list \<Rightarrow> err option" where
  "multierr_Combine errors = fromSlice errors"

text \<open>
  \<^verbatim>\<open>multierr.Append(left, right)\<close>: a \<^verbatim>\<open>nil\<close> side yields the other side; when \<open>right\<close> is
  no aggregate it is appended to the members of \<open>left\<close> (or paired with a single
  \<open>left\<close>); otherwise the general \<^verbatim>\<open>fromSlice\<close> applies.
\<close>

fun multierr_Append :: "err option \<Rightarrow> err option \<Rightarrow> err option" where
  "multierr_Append None right = right"
| "multierr_Append left None = left"
| "multierr_Append (Some l) (Some r) =
     (if \<not> is_Multi r then
        (if is_Multi l then Some (Multi (flat l @ [r])) else Some (Multi [l, r]))
      else fromSlice [Some l, Some r])"

text \<open>
  What \<^verbatim>\<open>errors.Is\<close> can find in an error: every non-aggregate error on its unwrap
  chain, through wrappers and through the members of aggregates. An error \<open>r\<close> carries
  \<open>x\<close> when the whole chain of \<open>x\<close> is found in \<open>r\<close>.
\<close>

fun causes :: "err \<Rightarrow> err list" where
  "causes (Err m) = [Err m]"
| "causes (Wrapped m e) = Wrapped m e # causes e"
| "causes (Multi es) = concat (map causes es)"

definition carries :: "err \<Rightarrow> err \<Rightarrow> bool" where
  "carries r x = (set (causes x) \<subseteq> set (causes r))"

text \<open>The same for a result that may be \<^verbatim>\<open>nil\<close>.\<close>

definition ocauses :: "err option \<Rightarrow> err set" where
  "ocauses r = (case r of None \<Rightarrow> {} | Some e \<Rightarrow> set (causes e))"

section \<open>Configuration, constants and collaborators\<close>

type_synonym config = "string \<rightharpoonup> string"

text \<open>
  Constants of packages \<^verbatim>\<open>consts\<close> and \<^verbatim>\<open>kv\<close> that \<^verbatim>\<open>cmd/root.go\<close> reads; their values
  are parameters.
\<close>

record constants =
  DataDir :: string
  LogPath :: string
  DriverTypeKey :: string
  DriverLegacy :: string
  DriverBolt :: string

text \<open>
  \<^verbatim>\<open>path/filepath\<close> on Unix (standard library). The elements of a path are what stands
  between its separators (\<^verbatim>\<open>strings.Split\<close>), and elements are put together with one
  separator between them (\<^verbatim>\<open>strings.Join\<close>).
\<close>

fun split_sep :: "string \<Rightarrow> string list" where
  "split_sep [] = [[]]"
| "split_sep (c # cs) =
     (if c = CHR ''/'' then [] # split_sep cs
      else (case split_sep cs of [] \<Rightarrow> [[c]] | x # xs \<Rightarrow> (c # x) # xs))"

fun join_sep :: "string list \<Rightarrow> string" where
  "join_sep [] = []"
| "join_sep [e] = e"
| "join_sep (e # es) = e @ ''/'' @ join_sep es"

text \<open>
  \<^verbatim>\<open>filepath.Clean\<close> reads the elements from left to right: an empty element and \<^verbatim>\<open>.\<close> are
  dropped; \<^verbatim>\<open>..\<close> removes the element before it when there is one that is not itself
  \<^verbatim>\<open>..\<close>, is dropped at the root, and is kept otherwise; any other element is kept. A
  rooted path keeps its leading separator, and an empty result is \<^verbatim>\<open>.\<close>.
\<close>

definition clean_step :: "bool \<Rightarrow> string list \<Rightarrow> string \<Rightarrow> string list" where
  "clean_step rooted out e =
     (if e = [] \<or> e = ''.'' then out
      else if e = ''..'' then
        (if out \<noteq> [] \<and> last out \<noteq> ''..'' then butlast out
         else if rooted then out
         else out @ [''..''])
      else out @ [e])"

definition is_rooted :: "string \<Rightarrow> bool" where
  "is_rooted path = (case path of [] \<Rightarrow> False | c # cs \<Rightarrow> c = CHR ''/'')"

definition filepath_Clean :: "string \<Rightarrow> string" where
  "filepath_Clean path =
     (let out = (if is_rooted path then ''/'' else [])
                @ join_sep (foldl (clean_step (is_rooted path)) [] (split_sep path))
      in if out = [] then ''.'' else out)"

text \<open>
  \<^verbatim>\<open>filepath.Join(dir, name)\<close>: the elements from the first non-empty one on are joined
  with the separator and the result is cleaned; with no non-empty element it is empty.
\<close>

definition filepath_Join :: "string \<Rightarrow> string \<Rightarrow> string" where
  "filepath_Join dir name =
     (if dir \<noteq> [] then filepath_Clean (dir @ ''/'' @ name)
      else if name \<noteq> [] then filepath_Clean name
      else [])"

definition defaultBoltPath :: "constants \<Rightarrow> string" where
  "defaultBoltPath C = filepath_Join (DataDir C) ''data''"

definition DefaultLegacyStorage :: "constants \<Rightarrow> config" where
  "DefaultLegacyStorage C =
     [DriverTypeKey C \<mapsto> DriverLegacy C,
      ''path'' \<mapsto> filepath_Join (DataDir C) ''data.kv'']"

definition DefaultBoltStorage :: "constants \<Rightarrow> config" where
  "DefaultBoltStorage C =
     [DriverTypeKey C \<mapsto> DriverBolt C,
      ''path'' \<mapsto> defaultBoltPath C]"

text \<open>The values viper and the flag set hold when a hook runs.\<close>

record flags =
  debug :: bool
  namespace :: string
  storage :: config
  storage_changed :: bool
  proxy :: string
  ntp :: string
  reconnect_timeout :: int

datatype level = InfoLevel | DebugLevel

record logger =
  log_level :: level
  log_file :: string

datatype directive =
  ShellCompDirectiveDefault | ShellCompDirectiveNoFileComp | ShellCompDirectiveFilterDirs

text \<open>
  Package \<^verbatim>\<open>kv\<close> is a parameter: a storage engine \<open>'e\<close>, an export blob \<open>'m\<close> and a
  namespace handle \<open>'k\<close>, with operations that read and change a world \<open>'w\<close>. A Go
  result pair \<^verbatim>\<open>(value, error)\<close> is a sum, \<open>Inl\<close> the error. A slice is a list option,
  \<open>None\<close> the \<^verbatim>\<open>nil\<close> slice.
\<close>

record ('w, 'e, 'm, 'k) kv_pkg =
  NewWithMap :: "config \<Rightarrow> 'w \<Rightarrow> (err + 'e) \<times> 'w"
  Close :: "'e \<Rightarrow> 'w \<Rightarrow> err option \<times> 'w"
  MigrateTo :: "'e \<Rightarrow> 'w \<Rightarrow> (err + 'm) \<times> 'w"
  MigrateFrom :: "'e \<Rightarrow> 'm \<Rightarrow> 'w \<Rightarrow> err option \<times> 'w"
  Open :: "'e \<Rightarrow> string \<Rightarrow> 'w \<Rightarrow> (err + 'k) \<times> 'w"
  Namespaces :: "'e \<Rightarrow> 'w \<Rightarrow> (err + string list option) \<times> 'w"

text \<open>\<^verbatim>\<open>fsutil.PathExists\<close> and the logger's \<^verbatim>\<open>Sync\<close>.\<close>

record 'w sys_pkg =
  PathExists :: "string \<Rightarrow> 'w \<Rightarrow> bool"
  Sync :: "logger \<Rightarrow> 'w \<Rightarrow> err option \<times> 'w"

record 'k Options =
  KV :: 'k
  Proxy :: string
  NTP :: string
  ReconnectTimeout :: int
  UpdateHandler :: "unit option"

section \<open>Calls and their trace\<close>

text \<open>
  Every call that leaves \<^verbatim>\<open>cmd/root.go\<close> is recorded, with its arguments and what it
  returned, in a trace kept beside the world; so are the entry into
  \<^verbatim>\<open>migrateLegacyToBolt\<close>, the command body that cobra runs between the two hooks, and
  the authentication that \<^verbatim>\<open>RunWithAuth\<close> runs before the callback. The trace is ghost
  state: no operation on the world reads or writes it.
\<close>

datatype ('e, 'm, 'k, 'c) event =
    Ev_logutil_New level string
  | Ev_Info string string
  | Ev_migrateLegacyToBolt
  | Ev_NewWithMap config "err + 'e"
  | Ev_Close 'e "err option"
  | Ev_MigrateTo 'e "err + 'm"
  | Ev_MigrateFrom 'e 'm "err option"
  | Ev_Sync logger "err option"
  | Ev_Namespaces 'e "err + string list option"
  | Ev_Open 'e string "err + 'k"
  | Ev_tclient_New "'k Options" "err + 'c"
  | Ev_authenticate 'c "err option"
  | Ev_task 'c 'k "err option"
  | Ev_RunE "err option"

type_synonym ('w, 'e, 'm, 'k, 'c) st = "('e, 'm, 'k, 'c) event list \<times> 'w"

definition emit :: "('e, 'm, 'k, 'c) event \<Rightarrow> ('w, 'e, 'm, 'k, 'c) st \<Rightarrow> ('w, 'e, 'm, 'k, 'c) st" where
  "emit ev s = (fst s @ [ev], snd s)"

definition call ::
  "('r \<Rightarrow> ('e, 'm, 'k, 'c) event) \<Rightarrow> ('w \<Rightarrow> 'r \<times> 'w) \<Rightarrow> ('w, 'e, 'm, 'k, 'c) st
     \<Rightarrow> 'r \<times> ('w, 'e, 'm, 'k, 'c) st" where
  "call mk op s = (case op (snd s) of (r, w') \<Rightarrow> (r, (fst s @ [mk r], w')))"

text \<open>The events recorded between two states.\<close>

definition events_since ::
  "('w, 'e, 'm, 'k, 'c) st \<Rightarrow> ('w, 'e, 'm, 'k, 'c) st \<Rightarrow> ('e, 'm, 'k, 'c) event list" where
  "events_since s s' = drop (length (fst s)) (fst s')"

text \<open>The error a recorded call returned, if it failed.\<close>

fun failure :: "('e, 'm, 'k, 'c) event \<Rightarrow> err option" where
  "failure (Ev_NewWithMap cfg r) = (case r of Inl e \<Rightarrow> Some e | Inr _ \<Rightarrow> None)"
| "failure (Ev_Close e r) = r"
| "failure (Ev_MigrateTo e r) = (case r of Inl e \<Rightarrow> Some e | Inr _ \<Rightarrow> None)"
| "failure (Ev_MigrateFrom e m r) = r"
| "failure (Ev_Sync l r) = r"
| "failure (Ev_Namespaces e r) = (case r of Inl e \<Rightarrow> Some e | Inr _ \<Rightarrow> None)"
| "failure (Ev_Open e ns r) = (case r of Inl e \<Rightarrow> Some e | Inr _ \<Rightarrow> None)"
| "failure (Ev_tclient_New opts r) = (case r of Inl e \<Rightarrow> Some e | Inr _ \<Rightarrow> None)"
| "failure (Ev_authenticate c r) = r"
| "failure (Ev_task c k r) = r"
| "failure (Ev_RunE r) = r"
| "failure ev = None"

section \<open>The migration coordinator\<close>

text \<open>
  \<^verbatim>\<open>multierr.AppendInvoke(&rerr, multierr.Close(x))\<close>, run as a deferred call: closes
  \<open>x\<close> and appends what \<^verbatim>\<open>Close\<close> returned to the function's named result.
\<close>

definition multierr_AppendInvoke ::
  "err option \<Rightarrow> ('s \<Rightarrow> err option \<times> 's) \<Rightarrow> 's \<Rightarrow> err option \<times> 's" where
  "multierr_AppendInvoke rerr invoker s =
     (case invoker s of (e, s') \<Rightarrow> (multierr_Append rerr e, s'))"

text \<open>
  \<^verbatim>\<open>migrateLegacyToBolt\<close>. The two deferred closes run when the function returns, last
  deferred first: each \<open>case\<close> below computes the result of the rest of the body, and the
  deferred close registered at that point is applied to it.
\<close>

definition migrateLegacyToBolt ::
  "('w, 'e, 'm, 'k) kv_pkg \<Rightarrow> constants \<Rightarrow> ('w, 'e, 'm, 'k, 'c) st
     \<Rightarrow> err option \<times> ('w, 'e, 'm, 'k, 'c) st" where
  "migrateLegacyToBolt K C s0 =
     (case call (Ev_NewWithMap (DefaultLegacyStorage C))
             (NewWithMap K (DefaultLegacyStorage C)) (emit Ev_migrateLegacyToBolt s0) of
        (Inl err, s1) \<Rightarrow> (Some (errors_Wrap err ''create legacy kv storage''), s1)
      | (Inr legacy, s1) \<Rightarrow>
          (case
             (case call (Ev_NewWithMap (DefaultBoltStorage C))
                     (NewWithMap K (DefaultBoltStorage C)) s1 of
                (Inl err, s2) \<Rightarrow> (Some (errors_Wrap err ''create bolt kv storage''), s2)
              | (Inr bolt, s2) \<Rightarrow>
                  (case
                     (case call (Ev_MigrateTo legacy) (MigrateTo K legacy) s2 of
                        (Inl err, s3) \<Rightarrow> (Some (errors_Wrap err ''migrate legacy to bolt''), s3)
                      | (Inr meta, s3) \<Rightarrow>
                          call (Ev_MigrateFrom bolt meta) (MigrateFrom K bolt meta) s3)
                   of (rerr, s4) \<Rightarrow>
                     multierr_AppendInvoke rerr (call (Ev_Close bolt) (Close K bolt)) s4))
           of (rerr, s5) \<Rightarrow>
             multierr_AppendInvoke rerr (call (Ev_Close legacy) (Close K legacy)) s5))"

section \<open>The root command's hooks\<close>

record 'e ctx =
  ctx_logger :: logger
  ctx_kv :: 'e

text \<open>Lines 59 to 71 of \<^verbatim>\<open>PersistentPreRunE\<close>: the logger and the namespace log line.\<close>

definition init_logger ::
  "constants \<Rightarrow> flags \<Rightarrow> ('w, 'e, 'm, 'k, 'c) st \<Rightarrow> logger \<times> ('w, 'e, 'm, 'k, 'c) st" where
  "init_logger C F s0 =
     (let level = (if debug F then DebugLevel else InfoLevel);
          file = filepath_Join (LogPath C) ''latest.log'';
          s1 = emit (Ev_logutil_New level file) s0;
          ns = namespace F;
          s2 = (if ns \<noteq> '''' then emit (Ev_Info ''Namespace'' ns) s1 else s1)
      in (\<lparr>log_level = level, log_file = file\<rparr>, s2))"

text \<open>
  \<^verbatim>\<open>PersistentPreRunE\<close>: \<open>Inl\<close> is the error returned, \<open>Inr\<close> the context the hook has set
  when it returns \<^verbatim>\<open>nil\<close>.
\<close>

definition PersistentPreRunE ::
  "('w, 'e, 'm, 'k) kv_pkg \<Rightarrow> 'w sys_pkg \<Rightarrow> constants \<Rightarrow> flags \<Rightarrow> ('w, 'e, 'm, 'k, 'c) st
     \<Rightarrow> (err + 'e ctx) \<times> ('w, 'e, 'm, 'k, 'c) st" where
  "PersistentPreRunE K S C F s0 =
     (case init_logger C F s0 of (lg, s2) \<Rightarrow>
        (case (if \<not> storage_changed F \<and> \<not> PathExists S (defaultBoltPath C) (snd s2)
               then migrateLegacyToBolt K C s2 else (None, s2)) of
           (Some err, s3) \<Rightarrow> (Inl (errors_Wrap err ''migrate legacy to bolt''), s3)
         | (None, s3) \<Rightarrow>
             (case call (Ev_NewWithMap (storage F)) (NewWithMap K (storage F)) s3 of
                (Inl err, s4) \<Rightarrow> (Inl (errors_Wrap err ''create kv storage''), s4)
              | (Inr st, s4) \<Rightarrow> (Inr \<lparr>ctx_logger = lg, ctx_kv = st\<rparr>, s4))))"

text \<open>
  \<^verbatim>\<open>PersistentPostRunE\<close>: Go evaluates the two arguments of \<^verbatim>\<open>multierr.Combine\<close> from
  left to right before the call.
\<close>

definition PersistentPostRunE ::
  "('w, 'e, 'm, 'k) kv_pkg \<Rightarrow> 'w sys_pkg \<Rightarrow> 'e ctx \<Rightarrow> ('w, 'e, 'm, 'k, 'c) st
     \<Rightarrow> err option \<times> ('w, 'e, 'm, 'k, 'c) st" where
  "PersistentPostRunE K S ctx s0 =
     (case call (Ev_Close (ctx_kv ctx)) (Close K (ctx_kv ctx)) s0 of (e1, s1) \<Rightarrow>
        (case call (Ev_Sync (ctx_logger ctx)) (Sync S (ctx_logger ctx)) s1 of (e2, s2) \<Rightarrow>
           (multierr_Combine [e1, e2], s2)))"

text \<open>The completion function registered for the namespace flag.\<close>

definition complete_namespace ::
  "('w, 'e, 'm, 'k) kv_pkg \<Rightarrow> 'e ctx \<Rightarrow> ('w, 'e, 'm, 'k, 'c) st
     \<Rightarrow> (string list option \<times> directive) \<times> ('w, 'e, 'm, 'k, 'c) st" where
  "complete_namespace K ctx s0 =
     (let engine = ctx_kv ctx in
      case call (Ev_Namespaces engine) (Namespaces K engine) s0 of
        (Inl err, s1) \<Rightarrow> ((None, ShellCompDirectiveNoFileComp), s1)
      | (Inr ns, s1) \<Rightarrow> ((ns, ShellCompDirectiveNoFileComp), s1))"

section \<open>Session bootstrap\<close>

text \<open>
  Packages \<^verbatim>\<open>pkg/tclient\<close> and \<^verbatim>\<open>core/tclient\<close> are parameters. \<^verbatim>\<open>RunWithAuth\<close> takes
  the callback it may run, so it works on the traced state.
\<close>

record ('w, 'e, 'm, 'k, 'c, 'mw) tclient_pkg =
  tclient_New :: "'k Options \<Rightarrow> bool \<Rightarrow> 'mw list \<Rightarrow> 'w \<Rightarrow> (err + 'c) \<times> 'w"
  RunWithAuth :: "'c \<Rightarrow> (('w, 'e, 'm, 'k, 'c) st \<Rightarrow> err option \<times> ('w, 'e, 'm, 'k, 'c) st)
                    \<Rightarrow> ('w, 'e, 'm, 'k, 'c) st \<Rightarrow> err option \<times> ('w, 'e, 'm, 'k, 'c) st"

text \<open>\<^verbatim>\<open>tRun\<close>; \<open>f\<close> is the caller's task.\<close>

definition tRun ::
  "('w, 'e, 'm, 'k) kv_pkg \<Rightarrow> ('w, 'e, 'm, 'k, 'c, 'mw) tclient_pkg \<Rightarrow> flags \<Rightarrow> 'e ctx
     \<Rightarrow> ('c \<Rightarrow> 'k \<Rightarrow> 'w \<Rightarrow> err option \<times> 'w) \<Rightarrow> 'mw list \<Rightarrow> ('w, 'e, 'm, 'k, 'c) st
     \<Rightarrow> err option \<times> ('w, 'e, 'm, 'k, 'c) st" where
  "tRun K T F ctx f middlewares s0 =
     (case call (Ev_Open (ctx_kv ctx) (namespace F))
             (Open K (ctx_kv ctx) (namespace F)) s0 of
        (Inl err, s1) \<Rightarrow> (Some (errors_Wrap err ''open kv storage''), s1)
      | (Inr kvd, s1) \<Rightarrow>
          (let opts = \<lparr>KV = kvd, Proxy = proxy F, NTP = ntp F,
                       ReconnectTimeout = reconnect_timeout F, UpdateHandler = None\<rparr>
           in case call (Ev_tclient_New opts) (tclient_New T opts False middlewares) s1 of
                (Inl err, s2) \<Rightarrow> (Some (errors_Wrap err ''create client''), s2)
              | (Inr client, s2) \<Rightarrow>
                  RunWithAuth T client (call (Ev_task client kvd) (f client kvd)) s2))"

section \<open>Command execution\<close>

text \<open>
  cobra's \<^verbatim>\<open>Command.execute\<close> (external library), for a subcommand that has no persistent
  hooks of its own: it runs the root's \<^verbatim>\<open>PersistentPreRunE\<close>, the command's \<^verbatim>\<open>RunE\<close> and
  the root's \<^verbatim>\<open>PersistentPostRunE\<close> in this order, and returns at once the first error one
  of them returns. The command body is a parameter; an interrupt reaches it through the
  cancelled context and it returns an error.
\<close>

definition execute ::
  "('w, 'e, 'm, 'k) kv_pkg \<Rightarrow> 'w sys_pkg \<Rightarrow> constants \<Rightarrow> flags
     \<Rightarrow> ('e ctx \<Rightarrow> 'w \<Rightarrow> err option \<times> 'w) \<Rightarrow> ('w, 'e, 'm, 'k, 'c) st
     \<Rightarrow> err option \<times> ('w, 'e, 'm, 'k, 'c) st" where
  "execute K S C F RunE s0 =
     (case PersistentPreRunE K S C F s0 of
        (Inl err, s1) \<Rightarrow> (Some err, s1)
      | (Inr ctx, s1) \<Rightarrow>
          (case call Ev_RunE (RunE ctx) s1 of
             (Some err, s2) \<Rightarrow> (Some err, s2)
           | (None, s2) \<Rightarrow> PersistentPostRunE K S ctx s2))"

section \<open>The storage layer and authentication, from the specification\<close>

text \<open>
  Modelled from the spec: package \<^verbatim>\<open>kv\<close> is not under src/. The driver identifiers
  (section 3), the two that \<^verbatim>\<open>cmd/root.go\<close> names: the legacy format and the bolt format.
\<close>

datatype driver = Legacy | Bolt

text \<open>
  Modelled from the spec: package \<^verbatim>\<open>kv\<close> is not under src/. A storage engine owns one
  driver for its lifetime (section 3); a file-backed driver is configured with a path
  (section 6).
\<close>

record engine =
  e_driver :: driver
  e_path :: string

text \<open>
  Modelled from the spec: package \<^verbatim>\<open>kv\<close> is not under src/. A namespace handle is a
  namespace of an engine (section 3).
\<close>

record handle =
  h_engine :: engine
  h_namespace :: string

text \<open>
  Modelled from the spec: package \<^verbatim>\<open>kv\<close> is not under src/. What is persisted (section 3):
  the key/value pairs of a namespace, and the namespaces of a store.
\<close>

type_synonym bucket = "(string \<times> string) list"
type_synonym store = "(string \<times> bucket) list"

text \<open>
  Modelled from the spec: package \<^verbatim>\<open>kv\<close> is not under src/. The persisted state is one
  store per path, a store holding the key/value pairs of each namespace (sections 3
  and 4.1). Backend failures (section 7, OpenError/IOError) come from a schedule: each
  backend operation takes the head, \<open>None\<close> for no failure, \<open>Some (e, n)\<close> for failing
  with \<open>e\<close>; \<open>n\<close> is how many namespaces of its blob a bulk import has applied by then
  (section 4.1: best-effort, not all-or-nothing).
\<close>

record disk =
  files :: "string \<rightharpoonup> store"
  faults :: "(err \<times> nat) option list"

text \<open>
  Modelled from the spec: package \<^verbatim>\<open>kv\<close> is not under src/. The outcome scheduled for the
  next backend operation; an exhausted schedule means no failure.
\<close>

definition next_fault :: "disk \<Rightarrow> (err \<times> nat) option \<times> disk" where
  "next_fault w = (case faults w of [] \<Rightarrow> (None, w) | f # fs \<Rightarrow> (f, w\<lparr>faults := fs\<rparr>))"

text \<open>
  Modelled from the spec: package \<^verbatim>\<open>kv\<close> is not under src/. The store persisted at a path,
  empty when there is none, and the pairs of a namespace, none when it does not exist.
\<close>

definition store_at :: "disk \<Rightarrow> string \<Rightarrow> store" where
  "store_at w p = (case files w p of None \<Rightarrow> [] | Some st \<Rightarrow> st)"

definition bucket_of :: "store \<Rightarrow> string \<Rightarrow> bucket" where
  "bucket_of st ns = (case map_of st ns of None \<Rightarrow> [] | Some b \<Rightarrow> b)"

text \<open>
  Modelled from the spec: package \<^verbatim>\<open>kv\<close> is not under src/. Keys are unique within a
  namespace and namespaces are isolated (section 3): a write replaces the value of its
  key in its namespace, creating the namespace when needed, and touches nothing else.
\<close>

definition create_namespace :: "string \<Rightarrow> store \<Rightarrow> store" where
  "create_namespace ns st = AList.update ns (bucket_of st ns) st"

definition put :: "string \<Rightarrow> string \<Rightarrow> string \<Rightarrow> store \<Rightarrow> store" where
  "put ns k v st = AList.update ns (AList.update k v (bucket_of st ns)) st"

text \<open>
  Modelled from the spec: package \<^verbatim>\<open>kv\<close> is not under src/. Applying a blob (section 4.1,
  \<^verbatim>\<open>MigrateFrom\<close>): every namespace of the blob is created as needed and each of its
  key/value pairs is written.
\<close>

definition apply_blob :: "store \<Rightarrow> store \<Rightarrow> store" where
  "apply_blob blob st =
     fold (\<lambda>(ns, b) st'. fold (\<lambda>(k, v). put ns k v) b (create_namespace ns st')) blob st"

text \<open>
  Modelled from the spec: package \<^verbatim>\<open>kv\<close> is not under src/. \<^verbatim>\<open>Create(config)\<close> (section
  4.1) fails with ConfigError on an unknown driver identifier or a missing path; the
  backend may fail as well.
\<close>

definition sm_NewWithMap :: "constants \<Rightarrow> config \<Rightarrow> disk \<Rightarrow> (err + engine) \<times> disk" where
  "sm_NewWithMap C cfg w =
     (case cfg (DriverTypeKey C) of
        None \<Rightarrow> (Inl (Err ''ConfigError''), w)
      | Some d \<Rightarrow>
          if d \<noteq> DriverLegacy C \<and> d \<noteq> DriverBolt C then (Inl (Err ''ConfigError''), w)
          else (case cfg ''path'' of
                  None \<Rightarrow> (Inl (Err ''ConfigError''), w)
                | Some p \<Rightarrow>
                    (case next_fault w of
                       (Some (e, n), w') \<Rightarrow> (Inl e, w')
                     | (None, w') \<Rightarrow>
                         (Inr \<lparr>e_driver = (if d = DriverLegacy C then Legacy else Bolt),
                               e_path = p\<rparr>, w'))))"

text \<open>
  Modelled from the spec: package \<^verbatim>\<open>kv\<close> is not under src/. \<^verbatim>\<open>Close()\<close> releases backend
  resources (section 4.1); it changes no persisted data.
\<close>

definition sm_Close :: "engine \<Rightarrow> disk \<Rightarrow> err option \<times> disk" where
  "sm_Close e w = (case next_fault w of (f, w') \<Rightarrow> (map_option fst f, w'))"

text \<open>
  Modelled from the spec: package \<^verbatim>\<open>kv\<close> is not under src/. \<^verbatim>\<open>MigrateTo()\<close> (section 4.1)
  serializes every namespace/key/value of the engine's store; the blob of a store
  without namespaces is empty.
\<close>

definition sm_MigrateTo :: "engine \<Rightarrow> disk \<Rightarrow> (err + store) \<times> disk" where
  "sm_MigrateTo e w =
     (case next_fault w of
        (Some (err, n), w') \<Rightarrow> (Inl err, w')
      | (None, w') \<Rightarrow> (Inr (store_at w' (e_path e)), w'))"

text \<open>
  Modelled from the spec: package \<^verbatim>\<open>kv\<close> is not under src/. \<^verbatim>\<open>MigrateFrom(blob)\<close> (section
  4.1) applies the blob to this engine's own store; a failed import has applied some
  first namespaces of the blob.
\<close>

definition sm_MigrateFrom :: "engine \<Rightarrow> store \<Rightarrow> disk \<Rightarrow> err option \<times> disk" where
  "sm_MigrateFrom e blob w =
     (case next_fault w of
        (Some (err, n), w') \<Rightarrow>
          (Some err,
           w'\<lparr>files := (files w')(e_path e \<mapsto> apply_blob (take n blob) (store_at w' (e_path e)))\<rparr>)
      | (None, w') \<Rightarrow>
          (None,
           w'\<lparr>files := (files w')(e_path e \<mapsto> apply_blob blob (store_at w' (e_path e)))\<rparr>))"

text \<open>
  Modelled from the spec: package \<^verbatim>\<open>kv\<close> is not under src/. \<^verbatim>\<open>Open(namespace)\<close> (section
  4.1) gives the handle of a namespace of this engine, or fails with an OpenError.
\<close>

definition sm_Open :: "engine \<Rightarrow> string \<Rightarrow> disk \<Rightarrow> (err + handle) \<times> disk" where
  "sm_Open e ns w =
     (case next_fault w of
        (Some (err, n), w') \<Rightarrow> (Inl err, w')
      | (None, w') \<Rightarrow> (Inr \<lparr>h_engine = e, h_namespace = ns\<rparr>, w'))"

text \<open>
  Modelled from the spec: package \<^verbatim>\<open>kv\<close> is not under src/. \<^verbatim>\<open>Namespaces()\<close> (section
  4.1) lists the persisted namespace names and surfaces a read error.
\<close>

definition sm_Namespaces :: "engine \<Rightarrow> disk \<Rightarrow> (err + string list option) \<times> disk" where
  "sm_Namespaces e w =
     (case next_fault w of
        (Some (err, n), w') \<Rightarrow> (Inl err, w')
      | (None, w') \<Rightarrow> (Inr (Some (map fst (store_at w' (e_path e)))), w'))"

text \<open>
  Modelled from the spec: package \<^verbatim>\<open>kv\<close> is not under src/. A write of a key/value pair
  through a namespace handle (sections 3 and 8); a failed write changes nothing.
\<close>

definition sm_Set :: "handle \<Rightarrow> string \<Rightarrow> string \<Rightarrow> disk \<Rightarrow> err option \<times> disk" where
  "sm_Set h k v w =
     (case next_fault w of
        (Some (err, n), w') \<Rightarrow> (Some err, w')
      | (None, w') \<Rightarrow>
          (None,
           w'\<lparr>files := (files w')(e_path (h_engine h) \<mapsto>
                 put (h_namespace h) k v (store_at w' (e_path (h_engine h))))\<rparr>))"

text \<open>
  Modelled from the spec: package \<^verbatim>\<open>kv\<close> is not under src/. A sequence of writes under one
  engine (section 8, round-trip law), each through the handle of its namespace; it stops
  at the first failure.
\<close>

fun sm_writes :: "engine \<Rightarrow> (string \<times> string \<times> string) list \<Rightarrow> disk \<Rightarrow> err option \<times> disk" where
  "sm_writes e [] w = (None, w)"
| "sm_writes e ((ns, k, v) # ws) w =
     (case sm_Open e ns w of
        (Inl err, w1) \<Rightarrow> (Some err, w1)
      | (Inr h, w1) \<Rightarrow>
          (case sm_Set h k v w1 of
             (Some err, w2) \<Rightarrow> (Some err, w2)
           | (None, w2) \<Rightarrow> sm_writes e ws w2))"

text \<open>
  Modelled from the spec: package \<^verbatim>\<open>kv\<close> is not under src/. The namespace to key to value
  mapping (section 8, round-trip law) of a store, and the one an engine holds: a
  namespace that was created and holds no key maps to the empty mapping.
\<close>

definition view :: "store \<Rightarrow> (string \<rightharpoonup> (string \<rightharpoonup> string))" where
  "view st = (\<lambda>ns. map_option map_of (map_of st ns))"

definition contents :: "disk \<Rightarrow> engine \<Rightarrow> (string \<rightharpoonup> (string \<rightharpoonup> string))" where
  "contents w e = view (store_at w (e_path e))"

text \<open>
  Modelled from the spec: package \<^verbatim>\<open>kv\<close> is not under src/. Keys are unique within a
  namespace (section 3): a store lists every namespace once and, within a namespace,
  every key once.
\<close>

definition wf_store :: "store \<Rightarrow> bool" where
  "wf_store st = (distinct (map fst st) \<and> list_all (\<lambda>(ns, b). distinct (map fst b)) st)"

text \<open>
  Modelled from the spec: package \<^verbatim>\<open>kv\<close> is not under src/. The package that
  \<^verbatim>\<open>cmd/root.go\<close> calls, made of the operations above.
\<close>

definition sm_kv :: "constants \<Rightarrow> (disk, engine, store, handle) kv_pkg" where
  "sm_kv C =
     \<lparr>NewWithMap = sm_NewWithMap C, Close = sm_Close, MigrateTo = sm_MigrateTo,
      MigrateFrom = sm_MigrateFrom, Open = sm_Open, Namespaces = sm_Namespaces\<rparr>"

text \<open>
  Modelled from the spec: \<^verbatim>\<open>fsutil.PathExists\<close> is not under src/. A path exists when a
  store is persisted at it (section 4.2, "already exists on disk"); flushing the logger
  is a backend operation that may fail.
\<close>

definition sm_sys :: "disk sys_pkg" where
  "sm_sys =
     \<lparr>PathExists = (\<lambda>p w. files w p \<noteq> None),
      Sync = (\<lambda>l w. case next_fault w of (f, w') \<Rightarrow> (map_option fst f, w'))\<rparr>"

text \<open>
  Modelled from the spec: \<^verbatim>\<open>core/tclient.RunWithAuth\<close> is not under src/. Section 4.3,
  steps (4) and (5), and section 7: authentication runs first (the credential check and
  the login collaborator are the parameter \<open>authenticate\<close>); its failure is reported as
  an AuthError, the tag of the authentication phase; after a successful authentication
  the callback is invoked and its error is propagated unchanged.
\<close>

definition sm_RunWithAuth ::
  "('c \<Rightarrow> 'w \<Rightarrow> err option \<times> 'w) \<Rightarrow> 'c
     \<Rightarrow> (('w, 'e, 'm, 'k, 'c) st \<Rightarrow> err option \<times> ('w, 'e, 'm, 'k, 'c) st)
     \<Rightarrow> ('w, 'e, 'm, 'k, 'c) st \<Rightarrow> err option \<times> ('w, 'e, 'm, 'k, 'c) st" where
  "sm_RunWithAuth authenticate client g s =
     (case call (Ev_authenticate client) (authenticate client) s of
        (Some e, s1) \<Rightarrow> (Some (Wrapped ''AuthError'' e), s1)
      | (None, s1) \<Rightarrow> g s1)"

text \<open>
  What a caller of \<^verbatim>\<open>tRun\<close> reads off the returned error: the phase named by its
  outermost annotation. The phase a recorded call belongs to.
\<close>

datatype phase = OpenPhase | ClientPhase | AuthPhase

fun phase_of_error :: "err \<Rightarrow> phase option" where
  "phase_of_error (Wrapped msg e) =
     (if msg = ''open kv storage'' then Some OpenPhase
      else if msg = ''create client'' then Some ClientPhase
      else if msg = ''AuthError'' then Some AuthPhase
      else None)"
| "phase_of_error e = None"

fun phase_of_event :: "('e, 'm, 'k, 'c) event \<Rightarrow> phase option" where
  "phase_of_event (Ev_Open e ns r) = Some OpenPhase"
| "phase_of_event (Ev_tclient_New opts r) = Some ClientPhase"
| "phase_of_event (Ev_authenticate c r) = Some AuthPhase"
| "phase_of_event ev = None"

text \<open>The engines closed and the loggers flushed in a trace, in order.\<close>

fun closed_engines :: "('e, 'm, 'k, 'c) event list \<Rightarrow> 'e list" where
  "closed_engines [] = []"
| "closed_engines (Ev_Close e r # evs) = e # closed_engines evs"
| "closed_engines (ev # evs) = closed_engines evs"

fun synced_loggers :: "('e, 'm, 'k, 'c) event list \<Rightarrow> logger list" where
  "synced_loggers [] = []"
| "synced_loggers (Ev_Sync l r # evs) = l # synced_loggers evs"
| "synced_loggers (ev # evs) = synced_loggers evs"


section \<open>A concrete installation\<close>

text \<open>
  Concrete values on which the hooks are run: a data directory holding a legacy store
  with two namespaces and no bolt store, the default flags, and a schedule of backend
  failures that each run chooses.
\<close>

definition ex_constants :: constants where
  "ex_constants =
     \<lparr>DataDir = ''/d'', LogPath = ''/l'', DriverTypeKey = ''type'',
      DriverLegacy = ''legacy'', DriverBolt = ''bolt''\<rparr>"

definition ex_flags :: flags where
  "ex_flags =
     \<lparr>debug = False, namespace = ''default'', storage = DefaultBoltStorage ex_constants,
      storage_changed = False, proxy = [], ntp = [], reconnect_timeout = 300000000000\<rparr>"

definition ex_store :: store where
  "ex_store = [(''default'', [(''session'', ''s1'')]), (''work'', [(''session'', ''s2'')])]"

definition ex_state :: "(err \<times> nat) option list \<Rightarrow> (disk, engine, store, handle, string) st" where
  "ex_state fs = ([], \<lparr>files = [''/d/data.kv'' \<mapsto> ex_store], faults = fs\<rparr>)"

definition ex_legacy :: engine where
  "ex_legacy = \<lparr>e_driver = Legacy, e_path = ''/d/data.kv''\<rparr>"

definition ex_bolt :: engine where
  "ex_bolt = \<lparr>e_driver = Bolt, e_path = ''/d/data''\<rparr>"

text \<open>The storage flag given explicitly, naming a legacy store elsewhere.\<close>

definition ex_flags_explicit :: flags where
  "ex_flags_explicit =
     ex_flags\<lparr>storage := [''type'' \<mapsto> ''legacy'', ''path'' \<mapsto> ''/x''], storage_changed := True\<rparr>"

definition ex_ctx :: "engine ctx" where
  "ex_ctx = \<lparr>ctx_logger = \<lparr>log_level = InfoLevel, log_file = ''/l/latest.log''\<rparr>, ctx_kv = ex_bolt\<rparr>"

text \<open>Command bodies: one that succeeds and one that returns a business error.\<close>

definition ex_body_ok :: "engine ctx \<Rightarrow> disk \<Rightarrow> err option \<times> disk" where
  "ex_body_ok c w = (None, w)"

definition ex_body_failing :: "engine ctx \<Rightarrow> disk \<Rightarrow> err option \<times> disk" where
  "ex_body_failing c w = (Some (Err ''download failed''), w)"

text \<open>A client package whose operations fail as the schedule says, and two tasks.\<close>

definition ex_authenticate :: "string \<Rightarrow> disk \<Rightarrow> err option \<times> disk" where
  "ex_authenticate c w = (case next_fault w of (f, w') \<Rightarrow> (map_option fst f, w'))"

definition ex_tclient :: "(disk, engine, store, handle, string, string) tclient_pkg" where
  "ex_tclient =
     \<lparr>tclient_New = (\<lambda>opts login mws w.
        case next_fault w of
          (Some (e, n), w') \<Rightarrow> (Inl e, w')
        | (None, w') \<Rightarrow> (Inr ''client'', w')),
      RunWithAuth = sm_RunWithAuth ex_authenticate\<rparr>"

definition ex_task :: "string \<Rightarrow> handle \<Rightarrow> disk \<Rightarrow> err option \<times> disk" where
  "ex_task c k w = (Some (Err ''chat not found''), w)"

text \<open>
  An empty disk, a sequence of writes that overwrites a key, and the disk after the
  writes under the legacy engine, after the export, and after the import into the bolt
  engine.
\<close>

definition ex_empty :: disk where
  "ex_empty = \<lparr>files = Map.empty, faults = []\<rparr>"

definition ex_writes :: "(string \<times> string \<times> string) list" where
  "ex_writes =
     [(''default'', ''session'', ''s1''), (''work'', ''session'', ''s2''),
      (''default'', ''session'', ''s3''), (''default'', ''dc'', ''2'')]"

definition ex_written :: disk where
  "ex_written = snd (sm_writes ex_legacy ex_writes ex_empty)"

definition ex_blob :: store where
  "ex_blob = [(''default'', [(''session'', ''s3''), (''dc'', ''2'')]), (''work'', [(''session'', ''s2'')])]"

definition ex_exported :: disk where
  "ex_exported = snd (sm_MigrateTo ex_legacy ex_written)"

definition ex_imported :: disk where
  "ex_imported = snd (sm_MigrateFrom ex_bolt ex_blob ex_exported)"

text \<open>
  Two runs of the coordinator that fail, one in the import after the first namespace,
  one in the export, and the state in which the next process starts on the disk that a
  run has left.
\<close>

definition ex_failed_import :: "err option \<times> (disk, engine, store, handle, string) st" where
  "ex_failed_import =
     migrateLegacyToBolt (sm_kv ex_constants) ex_constants
       (ex_state [None, None, None, Some (Err ''disk full'', 1)])"

definition ex_failed_export :: "err option \<times> (disk, engine, store, handle, string) st" where
  "ex_failed_export =
     migrateLegacyToBolt (sm_kv ex_constants) ex_constants
       (ex_state [None, None, Some (Err ''read error'', 0)])"

definition ex_next_start ::
  "err option \<times> (disk, engine, store, handle, string) st
     \<Rightarrow> (disk, engine, store, handle, string) st" where
  "ex_next_start run = ([], snd (snd run))"

section \<open>Aggregation of errors\<close>

lemmas ex_defs = ex_constants_def ex_flags_def ex_store_def ex_state_def ex_legacy_def ex_bolt_def
  ex_flags_explicit_def ex_ctx_def ex_body_ok_def ex_body_failing_def ex_authenticate_def
  ex_tclient_def ex_task_def ex_empty_def ex_writes_def ex_written_def ex_blob_def
  ex_exported_def ex_imported_def ex_failed_import_def ex_failed_export_def ex_next_start_def

lemmas sm_defs = sm_kv_def sm_sys_def sm_NewWithMap_def sm_Close_def sm_MigrateTo_def
  sm_MigrateFrom_def sm_Open_def sm_Namespaces_def sm_Set_def next_fault_def store_at_def
  bucket_of_def create_namespace_def put_def apply_blob_def

lemmas run_defs = migrateLegacyToBolt_def PersistentPreRunE_def PersistentPostRunE_def
  execute_def tRun_def sm_RunWithAuth_def complete_namespace_def
  init_logger_def call_def emit_def events_since_def multierr_AppendInvoke_def Let_def
  DefaultLegacyStorage_def DefaultBoltStorage_def defaultBoltPath_def filepath_Join_def
  filepath_Clean_def clean_step_def is_rooted_def
  multierr_Combine_def fromSlice_def

lemma ocauses_simps [simp]: "ocauses None = {}" "ocauses (Some e) = set (causes e)"
  by (simp_all add: ocauses_def)

lemma causes_flat: "concat (map causes (flat e)) = causes e"
  by (cases e) simp_all

lemma causes_Multi_flat2:
  "set (causes (Multi (flat l @ flat r))) = set (causes l) \<union> set (causes r)"
  using causes_flat [of l] causes_flat [of r] by simp

text \<open>Two errors appended or combined give the flat aggregate of both.\<close>

lemma multierr_Append_Some:
  "multierr_Append (Some l) (Some r) = Some (Multi (flat l @ flat r))"
  by (cases l; cases r) (simp_all add: fromSlice_def)

lemma Combine2_Some:
  "multierr_Combine [Some l, Some r] = Some (Multi (flat l @ flat r))"
  by (simp add: multierr_Combine_def fromSlice_def)

lemma ocauses_Append: "ocauses (multierr_Append a b) = ocauses a \<union> ocauses b"
proof (cases a; cases b)
  fix l r assume "a = Some l" "b = Some r"
  then show ?thesis by (simp only: multierr_Append_Some ocauses_simps causes_Multi_flat2)
qed simp_all

lemma ocauses_Combine2: "ocauses (multierr_Combine [a, b]) = ocauses a \<union> ocauses b"
proof (cases a; cases b)
  fix l r assume "a = Some l" "b = Some r"
  then show ?thesis by (simp only: Combine2_Some ocauses_simps causes_Multi_flat2)
qed (simp_all add: multierr_Combine_def fromSlice_def)

lemma Append_None_iff [simp]: "multierr_Append a b = None \<longleftrightarrow> a = None \<and> b = None"
  by (cases a; cases b) (simp_all add: multierr_Append_Some del: multierr_Append.simps(3))

lemma Combine2_None_iff [simp]: "multierr_Combine [a, b] = None \<longleftrightarrow> a = None \<and> b = None"
  by (cases a; cases b) (simp_all add: multierr_Combine_def fromSlice_def)

lemma carries_Wrapped: "carries e x \<Longrightarrow> carries (Wrapped msg e) x"
  by (auto simp: carries_def)

text \<open>What a failed call of the coordinator returned is found in the coordinator's result.\<close>

lemma migrate_carries:
  "migrateLegacyToBolt K C s = (r, s') \<Longrightarrow> ev \<in> set (events_since s s') \<Longrightarrow> failure ev = Some x
    \<Longrightarrow> set (causes x) \<subseteq> ocauses r"
  by (auto simp: migrateLegacyToBolt_def call_def emit_def multierr_AppendInvoke_def ocauses_Append
      events_since_def simp del: multierr_Append.simps(3) split: prod.splits sum.splits option.splits)

lemma migrate_nil:
  "migrateLegacyToBolt K C s = (None, s') \<Longrightarrow> ev \<in> set (events_since s s') \<Longrightarrow> failure ev = None"
  by (auto simp: migrateLegacyToBolt_def call_def emit_def multierr_AppendInvoke_def
      events_since_def simp del: multierr_Append.simps(3) split: prod.splits sum.splits option.splits)

lemma migrate_failure:
  assumes "migrateLegacyToBolt K C s = (r, s')" "ev \<in> set (events_since s s')" "failure ev = Some x"
  shows "\<exists>e. r = Some e \<and> carries e x"
proof -
  from migrate_nil [of K C s s' ev] assms have "r \<noteq> None" by auto
  with migrate_carries [OF assms] show ?thesis by (auto simp: carries_def)
qed

lemma postrun_carries:
  "PersistentPostRunE K S ctx s = (r, s') \<Longrightarrow> ev \<in> set (events_since s s') \<Longrightarrow> failure ev = Some x
    \<Longrightarrow> set (causes x) \<subseteq> ocauses r"
  by (auto simp: PersistentPostRunE_def call_def emit_def ocauses_Combine2
      events_since_def split: prod.splits sum.splits option.splits)

lemma postrun_nil:
  "PersistentPostRunE K S ctx s = (None, s') \<Longrightarrow> ev \<in> set (events_since s s') \<Longrightarrow> failure ev = None"
  by (auto simp: PersistentPostRunE_def call_def emit_def
      events_since_def split: prod.splits sum.splits option.splits)

lemma postrun_failure:
  assumes "PersistentPostRunE K S ctx s = (r, s')" "ev \<in> set (events_since s s')" "failure ev = Some x"
  shows "\<exists>e. r = Some e \<and> carries e x"
proof -
  from postrun_nil [of K S ctx s s' ev] assms have "r \<noteq> None" by auto
  with postrun_carries [OF assms] show ?thesis by (auto simp: carries_def)
qed

text \<open>
  Claim C6. Errors raised while closing resources are aggregated into the returned error
  together with any primary error of the same operation. In \<^verbatim>\<open>migrateLegacyToBolt\<close> and in
  \<^verbatim>\<open>PersistentPostRunE\<close>, whenever a call the function made failed with \<open>x\<close> (a creation,
  the export, the import, a \<^verbatim>\<open>Close\<close> of either engine, the logger's \<^verbatim>\<open>Sync\<close>), the function
  returns a non-nil error that carries \<open>x\<close>: no failure is dropped behind another one.
\<close>

theorem C6_close_errors_aggregated:
  "(migrateLegacyToBolt K C s = (r, s') \<and> ev \<in> set (events_since s s') \<and> failure ev = Some x
      \<longrightarrow> (\<exists>e. r = Some e \<and> carries e x))
   \<and> (PersistentPostRunE K' S ctx t = (r', t') \<and> ev' \<in> set (events_since t t')
        \<and> failure ev' = Some x'
      \<longrightarrow> (\<exists>e. r' = Some e \<and> carries e x'))"
  using migrate_failure [of K C s r s' ev x] postrun_failure [of K' S ctx t r' t' ev' x']
  by blast

text \<open>
  A run where the import fails and both closes fail as well, and a teardown where both
  \<^verbatim>\<open>Close\<close> and \<^verbatim>\<open>Sync\<close> fail: the first and the last failure are both in the result.
\<close>

theorem C6_close_errors_aggregated_witness:
  "fst (migrateLegacyToBolt (sm_kv ex_constants) ex_constants
         (ex_state [None, None, None, Some (Err ''disk full'', 1),
                    Some (Err ''close bolt'', 0), Some (Err ''close legacy'', 0)]))
     = Some (Multi [Err ''disk full'', Err ''close bolt'', Err ''close legacy''])
   \<and> carries (Multi [Err ''disk full'', Err ''close bolt'', Err ''close legacy''])
        (Err ''disk full'')
   \<and> carries (Multi [Err ''disk full'', Err ''close bolt'', Err ''close legacy''])
        (Err ''close legacy'')
   \<and> fst (PersistentPostRunE (sm_kv ex_constants) sm_sys
            \<lparr>ctx_logger = \<lparr>log_level = InfoLevel, log_file = ''/l/latest.log''\<rparr>,
             ctx_kv = ex_bolt\<rparr>
            (ex_state [Some (Err ''close'', 0), Some (Err ''sync'', 0)]))
     = Some (Multi [Err ''close'', Err ''sync''])
   \<and> carries (Multi [Err ''close'', Err ''sync'']) (Err ''close'')
   \<and> carries (Multi [Err ''close'', Err ''sync'']) (Err ''sync'')"
proof -
  let ?K = "sm_kv ex_constants"
  let ?s = "ex_state [None, None, None, Some (Err ''disk full'', 1),
                      Some (Err ''close bolt'', 0), Some (Err ''close legacy'', 0)]"
  let ?m = "migrateLegacyToBolt ?K ex_constants ?s"
  let ?ctx = "\<lparr>ctx_logger = \<lparr>log_level = InfoLevel, log_file = ''/l/latest.log''\<rparr>,
               ctx_kv = ex_bolt\<rparr>"
  let ?t = "ex_state [Some (Err ''close'', 0), Some (Err ''sync'', 0)]"
  let ?p = "PersistentPostRunE ?K sm_sys ?ctx ?t"
  have m: "fst ?m = Some (Multi [Err ''disk full'', Err ''close bolt'', Err ''close legacy''])"
    by (simp add: ex_defs sm_defs run_defs)
  have p: "fst ?p = Some (Multi [Err ''close'', Err ''sync''])"
    by (simp add: ex_defs sm_defs run_defs)
  have e1: "Ev_MigrateFrom ex_bolt ex_store (Some (Err ''disk full'')) \<in> set (events_since ?s (snd ?m))"
    by (simp add: ex_defs sm_defs run_defs)
  have e2: "Ev_Close ex_legacy (Some (Err ''close legacy'')) \<in> set (events_since ?s (snd ?m))"
    by (simp add: ex_defs sm_defs run_defs)
  have e3: "Ev_Close ex_bolt (Some (Err ''close'')) \<in> set (events_since ?t (snd ?p))"
    by (simp add: ex_defs sm_defs run_defs)
  have e4: "Ev_Sync (ctx_logger ?ctx) (Some (Err ''sync'')) \<in> set (events_since ?t (snd ?p))"
    by (simp add: ex_defs sm_defs run_defs)
  from C6_close_errors_aggregated
         [of ?K ex_constants ?s "fst ?m" "snd ?m"
             "Ev_MigrateFrom ex_bolt ex_store (Some (Err ''disk full''))" "Err ''disk full''"
             ?K sm_sys ?ctx ?t "fst ?p" "snd ?p"
             "Ev_Close ex_bolt (Some (Err ''close''))" "Err ''close''"] e1 e3
  have "(\<exists>e. fst ?m = Some e \<and> carries e (Err ''disk full''))
      \<and> (\<exists>e. fst ?p = Some e \<and> carries e (Err ''close''))"
    by simp
  moreover
  from C6_close_errors_aggregated
         [of ?K ex_constants ?s "fst ?m" "snd ?m"
             "Ev_Close ex_legacy (Some (Err ''close legacy''))" "Err ''close legacy''"
             ?K sm_sys ?ctx ?t "fst ?p" "snd ?p"
             "Ev_Sync (ctx_logger ?ctx) (Some (Err ''sync''))" "Err ''sync''"] e2 e4
  have "(\<exists>e. fst ?m = Some e \<and> carries e (Err ''close legacy''))
      \<and> (\<exists>e. fst ?p = Some e \<and> carries e (Err ''sync''))"
    by simp
  ultimately show ?thesis using m p by simp
qed

section \<open>The migration gate and the coordinator's steps\<close>

lemma init_logger_world: "snd (snd (init_logger C F s)) = snd s"
  by (simp add: init_logger_def emit_def Let_def)

lemma init_logger_events:
  "\<exists>evs. fst (snd (init_logger C F s)) = fst s @ evs \<and> Ev_migrateLegacyToBolt \<notin> set evs"
  by (auto simp: init_logger_def emit_def Let_def)

lemma migrate_events_start:
  "\<exists>evs. fst (snd (migrateLegacyToBolt K C s)) = fst s @ Ev_migrateLegacyToBolt # evs"
  by (auto simp: migrateLegacyToBolt_def call_def emit_def multierr_AppendInvoke_def
      split: prod.splits sum.splits option.splits)

text \<open>
  Claim C1. The coordinator is entered during \<^verbatim>\<open>PersistentPreRunE\<close> if and only if the
  storage flag was not changed by the caller and the default bolt path does not exist.
  When the flag was changed or the path exists, the hook records the logger's events and
  the creation of the configured engine and nothing else: no call of the coordinator.
\<close>

theorem C1_migration_gate:
  "(Ev_migrateLegacyToBolt \<in> set (events_since s (snd (PersistentPreRunE K S C F s))))
      = (\<not> storage_changed F \<and> \<not> PathExists S (defaultBoltPath C) (snd s))
   \<and> (storage_changed F \<or> PathExists S (defaultBoltPath C) (snd s) \<longrightarrow>
        events_since s (snd (PersistentPreRunE K S C F s))
          = events_since s (snd (init_logger C F s))
            @ [Ev_NewWithMap (storage F) (fst (NewWithMap K (storage F) (snd s)))])"
proof -
  obtain lg s2 where il: "init_logger C F s = (lg, s2)" by (cases "init_logger C F s")
  from init_logger_events [of C F s] il obtain evs0 where
    e0: "fst s2 = fst s @ evs0" "Ev_migrateLegacyToBolt \<notin> set evs0" by auto
  from init_logger_world [of C F s] il have w2: "snd s2 = snd s" by simp
  show ?thesis
  proof (cases "\<not> storage_changed F \<and> \<not> PathExists S (defaultBoltPath C) (snd s)")
    case True
    obtain r s3 where m: "migrateLegacyToBolt K C s2 = (r, s3)"
      by (cases "migrateLegacyToBolt K C s2")
    from migrate_events_start [of K C s2] m obtain evs where
      e3: "fst s3 = fst s2 @ Ev_migrateLegacyToBolt # evs" by auto
    have "Ev_migrateLegacyToBolt \<in> set (events_since s (snd (PersistentPreRunE K S C F s)))"
      using True il m e3 e0 w2
      by (cases r)
        (auto simp: PersistentPreRunE_def events_since_def call_def split: prod.splits sum.splits)
    with True show ?thesis by simp
  next
    case False
    then show ?thesis using il e0 w2
      by (auto simp: PersistentPreRunE_def events_since_def call_def split: prod.splits sum.splits)
  qed
qed

text \<open>
  With the default flags and no bolt store the coordinator runs. With the storage flag
  given explicitly (a legacy store at another path) it does not run although the bolt
  store is absent, and the bolt store is still absent after the hook.
\<close>

theorem C1_migration_gate_witness:
  "\<not> storage_changed ex_flags
   \<and> \<not> PathExists sm_sys (defaultBoltPath ex_constants) (snd (ex_state []))
   \<and> Ev_migrateLegacyToBolt \<in> set (events_since (ex_state [])
        (snd (PersistentPreRunE (sm_kv ex_constants) sm_sys ex_constants ex_flags (ex_state []))))
   \<and> storage_changed ex_flags_explicit
   \<and> events_since (ex_state [])
        (snd (PersistentPreRunE (sm_kv ex_constants) sm_sys ex_constants ex_flags_explicit
               (ex_state [])))
      = [Ev_logutil_New InfoLevel ''/l/latest.log'', Ev_Info ''Namespace'' ''default'',
         Ev_NewWithMap (storage ex_flags_explicit) (Inr \<lparr>e_driver = Legacy, e_path = ''/x''\<rparr>)]
   \<and> files (snd (snd (PersistentPreRunE (sm_kv ex_constants) sm_sys ex_constants
                        ex_flags_explicit (ex_state [])))) ''/d/data'' = None"
proof -
  have a: "\<not> storage_changed ex_flags
      \<and> \<not> PathExists sm_sys (defaultBoltPath ex_constants) (snd (ex_state []))"
    by (simp add: ex_defs sm_defs run_defs)
  have b: "storage_changed ex_flags_explicit" by (simp add: ex_defs)
  have c: "events_since (ex_state []) (snd (init_logger ex_constants ex_flags_explicit (ex_state [])))
             @ [Ev_NewWithMap (storage ex_flags_explicit)
                 (fst (NewWithMap (sm_kv ex_constants) (storage ex_flags_explicit)
                        (snd (ex_state []))))]
           = [Ev_logutil_New InfoLevel ''/l/latest.log'', Ev_Info ''Namespace'' ''default'',
              Ev_NewWithMap (storage ex_flags_explicit)
                (Inr \<lparr>e_driver = Legacy, e_path = ''/x''\<rparr>)]"
    by (simp add: ex_defs sm_defs run_defs)
  have d: "files (snd (snd (PersistentPreRunE (sm_kv ex_constants) sm_sys ex_constants
                        ex_flags_explicit (ex_state [])))) ''/d/data'' = None"
    by (simp add: ex_defs sm_defs run_defs)
  from C1_migration_gate [of "ex_state []" "sm_kv ex_constants" sm_sys ex_constants ex_flags] a
  have "Ev_migrateLegacyToBolt \<in> set (events_since (ex_state [])
        (snd (PersistentPreRunE (sm_kv ex_constants) sm_sys ex_constants ex_flags (ex_state []))))"
    by blast
  moreover
  from C1_migration_gate [of "ex_state []" "sm_kv ex_constants" sm_sys ex_constants
         ex_flags_explicit] b
  have "events_since (ex_state [])
        (snd (PersistentPreRunE (sm_kv ex_constants) sm_sys ex_constants ex_flags_explicit
               (ex_state [])))
      = events_since (ex_state []) (snd (init_logger ex_constants ex_flags_explicit (ex_state [])))
             @ [Ev_NewWithMap (storage ex_flags_explicit)
                 (fst (NewWithMap (sm_kv ex_constants) (storage ex_flags_explicit)
                        (snd (ex_state []))))]"
    by blast
  ultimately show ?thesis using a b d by (simp only: c simp_thms)
qed

text \<open>
  Claim C3, as amended. The coordinator creates the legacy-default engine, then the
  bolt-default engine, both from the built-in configurations, then calls \<^verbatim>\<open>MigrateTo\<close>
  on the legacy engine and \<^verbatim>\<open>MigrateFrom\<close> with the resulting blob on the bolt engine; the
  first step that fails ends this sequence. On return every engine that was created is
  closed, the bolt engine first, whatever failed after its creation. An engine whose
  creation failed is not closed, and no step after a failed one is performed.
\<close>

theorem C3_coordinator_steps:
  "(\<exists>e. events_since s (snd (migrateLegacyToBolt K C s)) =
        [Ev_migrateLegacyToBolt, Ev_NewWithMap (DefaultLegacyStorage C) (Inl e)])
   \<or> (\<exists>legacy e c. events_since s (snd (migrateLegacyToBolt K C s)) =
        [Ev_migrateLegacyToBolt, Ev_NewWithMap (DefaultLegacyStorage C) (Inr legacy),
         Ev_NewWithMap (DefaultBoltStorage C) (Inl e), Ev_Close legacy c])
   \<or> (\<exists>legacy bolt e c1 c2. events_since s (snd (migrateLegacyToBolt K C s)) =
        [Ev_migrateLegacyToBolt, Ev_NewWithMap (DefaultLegacyStorage C) (Inr legacy),
         Ev_NewWithMap (DefaultBoltStorage C) (Inr bolt), Ev_MigrateTo legacy (Inl e),
         Ev_Close bolt c1, Ev_Close legacy c2])
   \<or> (\<exists>legacy bolt meta r c1 c2. events_since s (snd (migrateLegacyToBolt K C s)) =
        [Ev_migrateLegacyToBolt, Ev_NewWithMap (DefaultLegacyStorage C) (Inr legacy),
         Ev_NewWithMap (DefaultBoltStorage C) (Inr bolt), Ev_MigrateTo legacy (Inr meta),
         Ev_MigrateFrom bolt meta r, Ev_Close bolt c1, Ev_Close legacy c2])"
  by (auto simp: migrateLegacyToBolt_def call_def emit_def multierr_AppendInvoke_def
      events_since_def split: prod.splits sum.splits option.splits)

text \<open>
  Claim C3 as stated fails where the creation of the bolt engine fails: the coordinator
  then calls neither \<^verbatim>\<open>MigrateTo\<close> nor \<^verbatim>\<open>MigrateFrom\<close> and closes one engine, the legacy
  one, not both.
\<close>

theorem C3_counterexample:
  "events_since (ex_state [None, Some (Err ''locked'', 0)])
     (snd (migrateLegacyToBolt (sm_kv ex_constants) ex_constants
            (ex_state [None, Some (Err ''locked'', 0)])))
     = [Ev_migrateLegacyToBolt,
        Ev_NewWithMap (DefaultLegacyStorage ex_constants) (Inr ex_legacy),
        Ev_NewWithMap (DefaultBoltStorage ex_constants) (Inl (Err ''locked'')),
        Ev_Close ex_legacy None]
   \<and> closed_engines (events_since (ex_state [None, Some (Err ''locked'', 0)])
        (snd (migrateLegacyToBolt (sm_kv ex_constants) ex_constants
               (ex_state [None, Some (Err ''locked'', 0)]))))
     = [ex_legacy]"
  by (simp add: ex_defs sm_defs run_defs)

text \<open>
  Claim C4. When the gate is open, every call of the coordinator that fails (the creation
  of either engine, the export, the import, a close) makes \<^verbatim>\<open>PersistentPreRunE\<close> return a
  non-nil error that carries the failure, in the state the coordinator left: the hook
  does not go on to create the configured engine or to set the context.
\<close>

theorem C4_migration_failure_aborts:
  assumes "\<not> storage_changed F" "\<not> PathExists S (defaultBoltPath C) (snd s)"
      and "migrateLegacyToBolt K C (snd (init_logger C F s)) = (r, s')"
      and "ev \<in> set (events_since (snd (init_logger C F s)) s')" "failure ev = Some x"
  shows "\<exists>e. PersistentPreRunE K S C F s = (Inl e, s') \<and> carries e x"
proof -
  from migrate_failure [OF assms(3-5)] obtain e where e: "r = Some e" "carries e x" by auto
  obtain lg s2 where il: "init_logger C F s = (lg, s2)" by (cases "init_logger C F s")
  with init_logger_world [of C F s] have w2: "snd s2 = snd s" by simp
  have "PersistentPreRunE K S C F s = (Inl (Wrapped ''migrate legacy to bolt'' e), s')"
    using assms(1-3) e(1) il w2 by (simp add: PersistentPreRunE_def)
  with carries_Wrapped [OF e(2)] show ?thesis by blast
qed

text \<open>
  A start where the import fails after one namespace: the hook returns the wrapped
  failure, and the last calls recorded are the two closes of the coordinator.
\<close>

theorem C4_migration_failure_aborts_witness:
  "\<not> storage_changed ex_flags
   \<and> \<not> PathExists sm_sys (defaultBoltPath ex_constants)
         (snd (ex_state [None, None, None, Some (Err ''disk full'', 1)]))
   \<and> Ev_MigrateFrom ex_bolt ex_store (Some (Err ''disk full''))
       \<in> set (events_since
                (snd (init_logger ex_constants ex_flags
                       (ex_state [None, None, None, Some (Err ''disk full'', 1)])))
                (snd (migrateLegacyToBolt (sm_kv ex_constants) ex_constants
                       (snd (init_logger ex_constants ex_flags
                              (ex_state [None, None, None, Some (Err ''disk full'', 1)]))))))
   \<and> (\<exists>e. PersistentPreRunE (sm_kv ex_constants) sm_sys ex_constants ex_flags
             (ex_state [None, None, None, Some (Err ''disk full'', 1)])
           = (Inl e, snd (migrateLegacyToBolt (sm_kv ex_constants) ex_constants
                       (snd (init_logger ex_constants ex_flags
                              (ex_state [None, None, None, Some (Err ''disk full'', 1)])))))
          \<and> carries e (Err ''disk full''))
   \<and> fst (PersistentPreRunE (sm_kv ex_constants) sm_sys ex_constants ex_flags
             (ex_state [None, None, None, Some (Err ''disk full'', 1)]))
       = Inl (Wrapped ''migrate legacy to bolt'' (Err ''disk full''))"
proof -
  let ?s = "ex_state [None, None, None, Some (Err ''disk full'', 1)]"
  let ?s1 = "snd (init_logger ex_constants ex_flags ?s)"
  let ?m = "migrateLegacyToBolt (sm_kv ex_constants) ex_constants ?s1"
  have a: "\<not> storage_changed ex_flags" by (simp add: ex_defs)
  have b: "\<not> PathExists sm_sys (defaultBoltPath ex_constants) (snd ?s)"
    by (simp add: ex_defs sm_defs run_defs)
  have c: "?m = (fst ?m, snd ?m)" by simp
  have d: "Ev_MigrateFrom ex_bolt ex_store (Some (Err ''disk full''))
             \<in> set (events_since ?s1 (snd ?m))"
    by (simp add: ex_defs sm_defs run_defs)
  have f: "failure (Ev_MigrateFrom ex_bolt ex_store (Some (Err ''disk full'')))
             = Some (Err ''disk full'')"
    by simp
  have g: "fst (PersistentPreRunE (sm_kv ex_constants) sm_sys ex_constants ex_flags ?s)
             = Inl (Wrapped ''migrate legacy to bolt'' (Err ''disk full''))"
    by (simp add: ex_defs sm_defs run_defs)
  from C4_migration_failure_aborts [OF a b c d f] a b d g show ?thesis by blast
qed

section \<open>Shell completion\<close>

text \<open>
  Claim C10. The completion function of the namespace flag returns no error: when
  \<^verbatim>\<open>Namespaces()\<close> fails it returns the nil list with the no-file-completion directive,
  otherwise the list \<^verbatim>\<open>Namespaces()\<close> returned, as it is, with the same directive. It
  calls \<^verbatim>\<open>Namespaces()\<close> once, on the engine of the context, and nothing else.
\<close>

theorem C10_completion_total:
  "fst (complete_namespace K ctx s) =
     (case fst (Namespaces K (ctx_kv ctx) (snd s)) of
        Inl err \<Rightarrow> (None, ShellCompDirectiveNoFileComp)
      | Inr ns \<Rightarrow> (ns, ShellCompDirectiveNoFileComp))
   \<and> events_since s (snd (complete_namespace K ctx s))
       = [Ev_Namespaces (ctx_kv ctx) (fst (Namespaces K (ctx_kv ctx) (snd s)))]"
  by (simp add: complete_namespace_def call_def events_since_def Let_def
      split: prod.splits sum.splits)

section \<open>Teardown\<close>

text \<open>
  Claim C7, as amended. When \<^verbatim>\<open>PersistentPreRunE\<close> and the command body both return nil,
  the engine's \<^verbatim>\<open>Close\<close> and the logger's \<^verbatim>\<open>Sync\<close> are each called exactly once, after the
  body has returned, \<^verbatim>\<open>Sync\<close> also when \<^verbatim>\<open>Close\<close> failed. When the body returns an error (a
  business error, or the error an interrupt makes it return), the execution ends with
  that error right after the body: \<^verbatim>\<open>PersistentPostRunE\<close> is not run, and neither \<^verbatim>\<open>Close\<close>
  nor \<^verbatim>\<open>Sync\<close> is called.
\<close>

theorem C7_teardown_after_success:
  "(PersistentPreRunE K S C F s = (Inr ctx, s1) \<and> RunE ctx (snd s1) = (None, w2) \<longrightarrow>
      (\<exists>c y. events_since s1 (snd (execute K S C F RunE s))
               = [Ev_RunE None, Ev_Close (ctx_kv ctx) c, Ev_Sync (ctx_logger ctx) y]))
   \<and> (PersistentPreRunE K S C F s = (Inr ctx, s1) \<and> RunE ctx (snd s1) = (Some e, w2) \<longrightarrow>
      execute K S C F RunE s = (Some e, (fst s1 @ [Ev_RunE (Some e)], w2)))"
  by (auto simp: execute_def PersistentPostRunE_def call_def events_since_def split: prod.splits)

text \<open>
  Claim C7 as stated fails for a command body that returns a business error: the
  execution returns that error, and no engine is closed and no logger is flushed.
\<close>

theorem C7_counterexample:
  "execute (sm_kv ex_constants) sm_sys ex_constants ex_flags_explicit ex_body_failing
     (ex_state [])
     = (Some (Err ''download failed''),
        ([Ev_logutil_New InfoLevel ''/l/latest.log'', Ev_Info ''Namespace'' ''default'',
          Ev_NewWithMap (storage ex_flags_explicit) (Inr \<lparr>e_driver = Legacy, e_path = ''/x''\<rparr>),
          Ev_RunE (Some (Err ''download failed''))],
         snd (ex_state [])))
   \<and> closed_engines (fst (snd (execute (sm_kv ex_constants) sm_sys ex_constants
         ex_flags_explicit ex_body_failing (ex_state [])))) = []
   \<and> synced_loggers (fst (snd (execute (sm_kv ex_constants) sm_sys ex_constants
         ex_flags_explicit ex_body_failing (ex_state [])))) = []"
  by (simp add: ex_defs sm_defs run_defs)

text \<open>
  A body that succeeds is followed by one \<^verbatim>\<open>Close\<close> and one \<^verbatim>\<open>Sync\<close>, the latter although
  the former failed; a body that fails is followed by nothing.
\<close>

theorem C7_teardown_after_success_witness:
  "fst (PersistentPreRunE (sm_kv ex_constants) sm_sys ex_constants ex_flags_explicit
         (ex_state [None, Some (Err ''close'', 0)]))
     = Inr \<lparr>ctx_logger = \<lparr>log_level = InfoLevel, log_file = ''/l/latest.log''\<rparr>,
            ctx_kv = \<lparr>e_driver = Legacy, e_path = ''/x''\<rparr>\<rparr>
   \<and> (\<exists>c y. events_since
               (snd (PersistentPreRunE (sm_kv ex_constants) sm_sys ex_constants
                      ex_flags_explicit (ex_state [None, Some (Err ''close'', 0)])))
               (snd (execute (sm_kv ex_constants) sm_sys ex_constants ex_flags_explicit
                      ex_body_ok (ex_state [None, Some (Err ''close'', 0)])))
             = [Ev_RunE None, Ev_Close \<lparr>e_driver = Legacy, e_path = ''/x''\<rparr> c,
                Ev_Sync \<lparr>log_level = InfoLevel, log_file = ''/l/latest.log''\<rparr> y])
   \<and> fst (execute (sm_kv ex_constants) sm_sys ex_constants ex_flags_explicit ex_body_ok
            (ex_state [None, Some (Err ''close'', 0)])) = Some (Err ''close'')
   \<and> fst (execute (sm_kv ex_constants) sm_sys ex_constants ex_flags_explicit ex_body_failing
            (ex_state [None, Some (Err ''close'', 0)])) = Some (Err ''download failed'')"
proof -
  let ?K = "sm_kv ex_constants"
  let ?s = "ex_state [None, Some (Err ''close'', 0)]"
  let ?pre = "PersistentPreRunE ?K sm_sys ex_constants ex_flags_explicit ?s"
  let ?ctx = "\<lparr>ctx_logger = \<lparr>log_level = InfoLevel, log_file = ''/l/latest.log''\<rparr>,
               ctx_kv = \<lparr>e_driver = Legacy, e_path = ''/x''\<rparr>\<rparr>"
  have a: "fst ?pre = Inr ?ctx" by (simp add: ex_defs sm_defs run_defs)
  then have pre: "?pre = (Inr ?ctx, snd ?pre)" by (metis prod.collapse)
  have ok: "ex_body_ok ?ctx (snd (snd ?pre)) = (None, snd (snd ?pre))"
    by (simp add: ex_body_ok_def)
  have ko: "ex_body_failing ?ctx (snd (snd ?pre)) = (Some (Err ''download failed''), snd (snd ?pre))"
    by (simp add: ex_body_failing_def)
  have r: "fst (execute ?K sm_sys ex_constants ex_flags_explicit ex_body_ok ?s)
             = Some (Err ''close'')"
    by (simp add: ex_defs sm_defs run_defs)
  from C7_teardown_after_success
         [of ?K sm_sys ex_constants ex_flags_explicit ?s ?ctx "snd ?pre" ex_body_ok
             "snd (snd ?pre)" "Err ''download failed''"] pre ok
  have "\<exists>c y. events_since (snd ?pre)
                 (snd (execute ?K sm_sys ex_constants ex_flags_explicit ex_body_ok ?s))
             = [Ev_RunE None, Ev_Close (ctx_kv ?ctx) c, Ev_Sync (ctx_logger ?ctx) y]"
    by blast
  moreover
  from C7_teardown_after_success
         [of ?K sm_sys ex_constants ex_flags_explicit ?s ?ctx "snd ?pre" ex_body_failing
             "snd (snd ?pre)" "Err ''download failed''"] pre ko
  have "fst (execute ?K sm_sys ex_constants ex_flags_explicit ex_body_failing ?s)
          = Some (Err ''download failed'')"
    by simp
  ultimately show ?thesis using a r by simp
qed

section \<open>The automatic migration over the specified storage layer\<close>


















section \<open>The round trip of a migration\<close>

lemma contents_view: "contents w e = view (store_at w (e_path e))"
  by (simp add: contents_def)

lemma map_of_rev_distinct: "distinct (map fst xs) \<Longrightarrow> map_of (rev xs) = map_of xs"
proof (induction xs)
  case Nil
  then show ?case by simp
next
  case (Cons p xs)
  obtain k v where p: "p = (k, v)" by (cases p)
  from Cons.prems p have "map_of xs k = None" by (simp add: map_of_eq_None_iff)
  then have "[k \<mapsto> v] ++ map_of xs = (map_of xs)(k \<mapsto> v)"
    by (auto simp: map_add_def fun_eq_iff split: option.splits)
  with Cons p show ?case by simp
qed

text \<open>A write and the creation of a namespace, seen on the mapping.\<close>

lemma view_put:
  "view (put ns k v st)
     = (view st)(ns \<mapsto> (case view st ns of None \<Rightarrow> Map.empty | Some m \<Rightarrow> m)(k \<mapsto> v))"
  by (auto simp: fun_eq_iff view_def put_def update_conv' bucket_of_def split: option.splits)

lemma view_create_namespace:
  "view (create_namespace ns st)
     = (view st)(ns \<mapsto> (case view st ns of None \<Rightarrow> Map.empty | Some m \<Rightarrow> m))"
  by (auto simp: fun_eq_iff view_def create_namespace_def update_conv' bucket_of_def
      split: option.splits)

lemma view_fold_put:
  "view st ns = Some m \<Longrightarrow>
   view (fold (\<lambda>(k, v). put ns k v) b st) = (view st)(ns \<mapsto> m ++ map_of (rev b))"
proof (induction b arbitrary: st m)
  case Nil
  then show ?case by (auto simp: fun_eq_iff)
next
  case (Cons p b)
  obtain k v where p: "p = (k, v)" by (cases p)
  have vp: "view (put ns k v st) = (view st)(ns \<mapsto> m(k \<mapsto> v))"
    using Cons.prems by (simp add: view_put)
  then have "view (put ns k v st) ns = Some (m(k \<mapsto> v))" by simp
  from Cons.IH [OF this]
  have "view (fold (\<lambda>(k, v). put ns k v) b (put ns k v st))
          = (view st)(ns \<mapsto> m(k \<mapsto> v) ++ map_of (rev b))"
    by (simp only: vp fun_upd_upd)
  moreover have "m ++ map_of (rev (p # b)) = m(k \<mapsto> v) ++ map_of (rev b)"
    by (simp add: p)
  ultimately show ?case by (simp only: p fold_Cons comp_apply prod.case)
qed

lemma view_import_namespace:
  "view (fold (\<lambda>(k, v). put ns k v) b (create_namespace ns st))
     = (view st)(ns \<mapsto> (case view st ns of None \<Rightarrow> Map.empty | Some m \<Rightarrow> m) ++ map_of (rev b))"
  using view_fold_put [of "create_namespace ns st" ns
      "case view st ns of None \<Rightarrow> Map.empty | Some m \<Rightarrow> m" b]
  by (simp add: view_create_namespace)

text \<open>
  Applying a blob that lists each namespace once to a store that has none of them adds
  the blob's namespaces, each with the pairs of its bucket, later pairs winning.
\<close>

lemma view_apply_blob:
  "distinct (map fst blob) \<Longrightarrow> (\<forall>ns \<in> fst ` set blob. view st ns = None) \<Longrightarrow>
   view (apply_blob blob st)
     = view st ++ (\<lambda>ns. map_option (\<lambda>b. map_of (rev b)) (map_of blob ns))"
proof (induction blob arbitrary: st)
  case Nil
  then show ?case by (simp add: apply_blob_def)
next
  case (Cons p blob)
  obtain ns b where p: "p = (ns, b)" by (cases p)
  let ?st' = "fold (\<lambda>(k, v). put ns k v) b (create_namespace ns st)"
  have v': "view ?st' = (view st)(ns \<mapsto> map_of (rev b))"
    using Cons.prems(2) by (simp add: view_import_namespace p)
  have ns: "ns \<notin> fst ` set blob" using Cons.prems(1) p by auto
  have "\<forall>ns' \<in> fst ` set blob. view ?st' ns' = None"
    using Cons.prems(2) ns v' by auto
  with Cons.IH [of ?st'] Cons.prems(1)
  have "view (apply_blob blob ?st')
          = view ?st' ++ (\<lambda>ns. map_option (\<lambda>b. map_of (rev b)) (map_of blob ns))"
    by simp
  moreover have "apply_blob (p # blob) st = apply_blob blob ?st'"
    by (simp add: apply_blob_def p)
  moreover have "map_of blob ns = None" using ns by (simp add: map_of_eq_None_iff)
  ultimately show ?case using v'
    by (auto simp: fun_eq_iff map_add_def p split: option.splits)
qed

lemma view_apply_blob_fresh:
  assumes "wf_store blob"
  shows "view (apply_blob blob []) = view blob"
proof -
  have e: "view ([] :: store) = Map.empty" by (simp add: view_def fun_eq_iff)
  have "map_of (rev b) = map_of b" if "map_of blob ns = Some b" for ns b
  proof -
    from that have "(ns, b) \<in> set blob" by (rule map_of_SomeD)
    with assms have "distinct (map fst b)" by (auto simp: wf_store_def list_all_iff)
    then show ?thesis by (rule map_of_rev_distinct)
  qed
  then have "map_option (\<lambda>b. map_of (rev b)) (map_of blob ns) = map_option map_of (map_of blob ns)"
    for ns
    by (cases "map_of blob ns") simp_all
  then have "(\<lambda>ns. map_option (\<lambda>b. map_of (rev b)) (map_of blob ns)) = view blob"
    by (simp add: view_def)
  with view_apply_blob [of blob "[]"] assms e show ?thesis
    by (simp add: wf_store_def)
qed

text \<open>Writes keep a store well formed.\<close>

lemma set_update_subset: "set (AList.update k v al) \<subseteq> insert (k, v) (set al)"
  by (induction al) auto

lemma wf_store_put:
  assumes wf: "wf_store st"
  shows "wf_store (put ns k v st)"
proof -
  have b: "distinct (map fst (bucket_of st ns))"
    using wf
    by (auto simp: bucket_of_def wf_store_def list_all_iff split: option.splits
        dest: map_of_SomeD)
  have "distinct (map fst (AList.update k v (bucket_of st ns)))"
    using b by (rule distinct_update)
  moreover have "distinct (map fst (put ns k v st))"
    using wf by (simp add: put_def wf_store_def distinct_update)
  ultimately show ?thesis
    using wf set_update_subset [of ns "AList.update k v (bucket_of st ns)" st]
    by (auto simp: wf_store_def list_all_iff put_def)
qed

lemma store_at_Set:
  "sm_Set h k v w = (None, w') \<Longrightarrow>
   store_at w' p = (if p = e_path (h_engine h) then put (h_namespace h) k v (store_at w p)
                    else store_at w p)"
  by (auto simp: sm_Set_def next_fault_def store_at_def
      split: list.splits option.splits prod.splits)

lemma store_at_Open:
  "sm_Open e ns w = (Inr h, w') \<Longrightarrow> store_at w' p = store_at w p \<and> h_engine h = e"
  by (auto simp: sm_Open_def next_fault_def store_at_def
      split: list.splits option.splits prod.splits)

lemma wf_sm_writes:
  "sm_writes a ws w = (None, w') \<Longrightarrow> wf_store (store_at w (e_path a))
     \<Longrightarrow> wf_store (store_at w' (e_path a))"
proof (induction ws arbitrary: w)
  case Nil
  then show ?case by simp
next
  case (Cons t ws)
  obtain ns k v where t: "t = (ns, k, v)" by (cases t)
  from Cons.prems(1) t obtain h w1 w2 where
    o: "sm_Open a ns w = (Inr h, w1)" and s: "sm_Set h k v w1 = (None, w2)"
    and r: "sm_writes a ws w2 = (None, w')"
    by (auto split: prod.splits sum.splits option.splits)
  from store_at_Open [OF o] store_at_Set [OF s] Cons.prems(2)
  have "wf_store (store_at w2 (e_path a))" by (simp add: wf_store_put)
  with Cons.IH [OF r] show ?case .
qed

text \<open>
  Claim C2. Over the storage layer as specified: take any engine \<open>a\<close> (of any driver) whose
  store is new, persist any sequence of namespace/key/value writes under it, export it
  with \<^verbatim>\<open>MigrateTo\<close> and import the blob with \<^verbatim>\<open>MigrateFrom\<close> into any engine \<open>b\<close> (of any
  driver) whose store is new. When these operations succeed, \<open>b\<close> holds exactly the
  namespace to key to value mapping that \<open>a\<close> holds. No write at all is the
  zero-namespace case.
\<close>

theorem C2_round_trip:
  assumes "files w0 (e_path a) = None"
      and "sm_writes a ws w0 = (None, w1)"
      and "sm_MigrateTo a w1 = (Inr blob, w2)"
      and "files w2 (e_path b) = None"
      and "sm_MigrateFrom b blob w2 = (None, w3)"
  shows "contents w3 b = contents w1 a"
proof -
  have "wf_store (store_at w0 (e_path a))"
    using assms(1) by (simp add: store_at_def wf_store_def)
  with wf_sm_writes [OF assms(2)] have wf: "wf_store (store_at w1 (e_path a))" .
  from assms(3) have blob: "blob = store_at w1 (e_path a)"
    by (auto simp: sm_MigrateTo_def next_fault_def store_at_def
        split: list.splits option.splits prod.splits)
  from assms(4,5) have "store_at w3 (e_path b) = apply_blob blob []"
    by (auto simp: sm_MigrateFrom_def next_fault_def store_at_def
        split: list.splits option.splits prod.splits)
  with view_apply_blob_fresh [of blob] wf blob show ?thesis
    by (simp add: contents_view)
qed

text \<open>
  Four writes under a new legacy engine, the second write of a key replacing the first,
  exported and imported into a new bolt engine; and the round trip of no write at all.
\<close>

theorem C2_round_trip_witness:
  "files ex_empty (e_path ex_legacy) = None
   \<and> sm_writes ex_legacy ex_writes ex_empty = (None, ex_written)
   \<and> sm_MigrateTo ex_legacy ex_written = (Inr ex_blob, ex_exported)
   \<and> files ex_exported (e_path ex_bolt) = None
   \<and> sm_MigrateFrom ex_bolt ex_blob ex_exported = (None, ex_imported)
   \<and> contents ex_imported ex_bolt = contents ex_written ex_legacy
   \<and> store_at ex_imported ''/d/data'' = ex_blob
   \<and> contents (snd (sm_MigrateFrom ex_legacy [] ex_empty)) ex_legacy = contents ex_empty ex_bolt"
proof -
  have a: "files ex_empty (e_path ex_legacy) = None" by (simp add: ex_defs)
  have b: "sm_writes ex_legacy ex_writes ex_empty = (None, ex_written)"
    by (simp add: ex_defs sm_defs)
  have c: "sm_MigrateTo ex_legacy ex_written = (Inr ex_blob, ex_exported)"
    by (simp add: ex_defs sm_defs)
  have d: "files ex_exported (e_path ex_bolt) = None" by (simp add: ex_defs sm_defs)
  have e: "sm_MigrateFrom ex_bolt ex_blob ex_exported = (None, ex_imported)"
    by (simp add: ex_defs sm_defs)
  have f: "store_at ex_imported ''/d/data'' = ex_blob" by (simp add: ex_defs sm_defs)
  have z1: "files ex_empty (e_path ex_bolt) = None" by (simp add: ex_defs)
  have z2: "sm_writes ex_bolt [] ex_empty = (None, ex_empty)" by simp
  have z3: "sm_MigrateTo ex_bolt ex_empty = (Inr [], ex_empty)" by (simp add: ex_defs sm_defs)
  have z4: "sm_MigrateFrom ex_legacy [] ex_empty = (None, snd (sm_MigrateFrom ex_legacy [] ex_empty))"
    by (simp add: ex_defs sm_defs)
  from C2_round_trip [OF a b c d e] C2_round_trip [OF z1 z2 z3 a z4] a b c d e f
  show ?thesis by simp
qed

section \<open>Session bootstrap over the specified authentication\<close>

lemma carries_refl_Wrapped: "carries (Wrapped msg x) x"
  by (auto simp: carries_def)

text \<open>
  Claim C8. With \<^verbatim>\<open>RunWithAuth\<close> as specified, a failure of \<^verbatim>\<open>tRun\<close> in one of its three
  phases (opening the namespace store, constructing the client, authenticating) is
  returned under the annotation of that phase, and the annotations differ: from the
  returned error the caller reads which of the three phases failed, and the error
  carries the underlying failure.
\<close>

theorem C8_failures_tagged:
  assumes "RunWithAuth T = sm_RunWithAuth authenticate"
      and "tRun K T F ctx f mws s = (r, s')"
      and "ev \<in> set (events_since s s')" "failure ev = Some x" "phase_of_event ev = Some p"
  shows "\<exists>e. r = Some e \<and> phase_of_error e = Some p \<and> carries e x"
  using assms
  by (auto simp: tRun_def sm_RunWithAuth_def call_def events_since_def Let_def
      carries_refl_Wrapped split: prod.splits sum.splits option.splits)

text \<open>
  Three runs that fail with the same underlying error, one in each phase: the three
  results are told apart.
\<close>

theorem C8_failures_tagged_witness:
  "fst (tRun (sm_kv ex_constants) ex_tclient ex_flags ex_ctx ex_task []
         (ex_state [Some (Err ''timeout'', 0)]))
     = Some (Wrapped ''open kv storage'' (Err ''timeout''))
   \<and> phase_of_error (Wrapped ''open kv storage'' (Err ''timeout'')) = Some OpenPhase
   \<and> fst (tRun (sm_kv ex_constants) ex_tclient ex_flags ex_ctx ex_task []
         (ex_state [None, Some (Err ''timeout'', 0)]))
     = Some (Wrapped ''create client'' (Err ''timeout''))
   \<and> phase_of_error (Wrapped ''create client'' (Err ''timeout'')) = Some ClientPhase
   \<and> fst (tRun (sm_kv ex_constants) ex_tclient ex_flags ex_ctx ex_task []
         (ex_state [None, None, Some (Err ''timeout'', 0)]))
     = Some (Wrapped ''AuthError'' (Err ''timeout''))
   \<and> phase_of_error (Wrapped ''AuthError'' (Err ''timeout'')) = Some AuthPhase"
proof -
  let ?K = "sm_kv ex_constants"
  let ?run = "\<lambda>fs. tRun ?K ex_tclient ex_flags ex_ctx ex_task [] (ex_state fs)"
  let ?h = "\<lparr>h_engine = ex_bolt, h_namespace = ''default''\<rparr>"
  have T: "RunWithAuth ex_tclient = sm_RunWithAuth ex_authenticate"
    by (simp add: ex_tclient_def)
  have r1: "fst (?run [Some (Err ''timeout'', 0)])
              = Some (Wrapped ''open kv storage'' (Err ''timeout''))"
    by (simp add: ex_defs sm_defs run_defs)
  have e1: "Ev_Open ex_bolt ''default'' (Inl (Err ''timeout''))
              \<in> set (events_since (ex_state [Some (Err ''timeout'', 0)])
                       (snd (?run [Some (Err ''timeout'', 0)])))"
    by (simp add: ex_defs sm_defs run_defs)
  have r2: "fst (?run [None, Some (Err ''timeout'', 0)])
              = Some (Wrapped ''create client'' (Err ''timeout''))"
    by (simp add: ex_defs sm_defs run_defs)
  have e2: "Ev_tclient_New \<lparr>KV = ?h, Proxy = [], NTP = [], ReconnectTimeout = 300000000000,
                            UpdateHandler = None\<rparr> (Inl (Err ''timeout''))
              \<in> set (events_since (ex_state [None, Some (Err ''timeout'', 0)])
                       (snd (?run [None, Some (Err ''timeout'', 0)])))"
    by (simp add: ex_defs sm_defs run_defs)
  have r3: "fst (?run [None, None, Some (Err ''timeout'', 0)])
              = Some (Wrapped ''AuthError'' (Err ''timeout''))"
    by (simp add: ex_defs sm_defs run_defs)
  have e3: "Ev_authenticate ''client'' (Some (Err ''timeout''))
              \<in> set (events_since (ex_state [None, None, Some (Err ''timeout'', 0)])
                       (snd (?run [None, None, Some (Err ''timeout'', 0)])))"
    by (simp add: ex_defs sm_defs run_defs)
  from C8_failures_tagged [OF T prod.collapse [symmetric] e1,
         where x = "Err ''timeout''" and p = OpenPhase] r1
  have "phase_of_error (Wrapped ''open kv storage'' (Err ''timeout'')) = Some OpenPhase"
    by simp
  moreover
  from C8_failures_tagged [OF T prod.collapse [symmetric] e2,
         where x = "Err ''timeout''" and p = ClientPhase] r2
  have "phase_of_error (Wrapped ''create client'' (Err ''timeout'')) = Some ClientPhase"
    by simp
  moreover
  from C8_failures_tagged [OF T prod.collapse [symmetric] e3,
         where x = "Err ''timeout''" and p = AuthPhase] r3
  have "phase_of_error (Wrapped ''AuthError'' (Err ''timeout'')) = Some AuthPhase"
    by simp
  ultimately show ?thesis using r1 r2 r3 by simp
qed

text \<open>
  Claim C9. With \<^verbatim>\<open>RunWithAuth\<close> as specified: when the namespace is opened, the client
  is constructed and the authentication succeeds, \<^verbatim>\<open>tRun\<close> calls the caller's task once,
  with the client that was constructed and the handle that was opened, after these
  three steps, and returns what the task returned, as it is; the world it leaves is the
  one the task left.
\<close>

theorem C9_task_invoked_once:
  assumes "Open K (ctx_kv ctx) (namespace F) (snd s) = (Inr kvd, w1)"
      and "tclient_New T \<lparr>KV = kvd, Proxy = proxy F, NTP = ntp F,
             ReconnectTimeout = reconnect_timeout F, UpdateHandler = None\<rparr> False mws w1
           = (Inr client, w2)"
      and "RunWithAuth T = sm_RunWithAuth authenticate"
      and "authenticate client w2 = (None, w3)"
      and "f client kvd w3 = (r, w4)"
  shows "tRun K T F ctx f mws s =
           (r, (fst s @ [Ev_Open (ctx_kv ctx) (namespace F) (Inr kvd),
                         Ev_tclient_New \<lparr>KV = kvd, Proxy = proxy F, NTP = ntp F,
                           ReconnectTimeout = reconnect_timeout F, UpdateHandler = None\<rparr>
                           (Inr client),
                         Ev_authenticate client None,
                         Ev_task client kvd r], w4))"
  using assms
  by (simp add: tRun_def sm_RunWithAuth_def call_def Let_def)

text \<open>A task that fails: its error is the result of \<^verbatim>\<open>tRun\<close>, without annotation.\<close>

theorem C9_task_invoked_once_witness:
  "Open (sm_kv ex_constants) (ctx_kv ex_ctx) (namespace ex_flags) (snd (ex_state []))
     = (Inr \<lparr>h_engine = ex_bolt, h_namespace = ''default''\<rparr>, snd (ex_state []))
   \<and> ex_authenticate ''client'' (snd (ex_state [])) = (None, snd (ex_state []))
   \<and> ex_task ''client'' \<lparr>h_engine = ex_bolt, h_namespace = ''default''\<rparr> (snd (ex_state []))
       = (Some (Err ''chat not found''), snd (ex_state []))
   \<and> tRun (sm_kv ex_constants) ex_tclient ex_flags ex_ctx ex_task [] (ex_state [])
       = (Some (Err ''chat not found''),
          ([Ev_Open ex_bolt ''default'' (Inr \<lparr>h_engine = ex_bolt, h_namespace = ''default''\<rparr>),
            Ev_tclient_New \<lparr>KV = \<lparr>h_engine = ex_bolt, h_namespace = ''default''\<rparr>, Proxy = [],
              NTP = [], ReconnectTimeout = 300000000000, UpdateHandler = None\<rparr> (Inr ''client''),
            Ev_authenticate ''client'' None,
            Ev_task ''client'' \<lparr>h_engine = ex_bolt, h_namespace = ''default''\<rparr>
              (Some (Err ''chat not found''))],
           snd (ex_state [])))"
proof -
  let ?h = "\<lparr>h_engine = ex_bolt, h_namespace = ''default''\<rparr>"
  let ?w = "snd (ex_state [])"
  have a: "Open (sm_kv ex_constants) (ctx_kv ex_ctx) (namespace ex_flags) ?w = (Inr ?h, ?w)"
    by (simp add: ex_defs sm_defs)
  have b: "tclient_New ex_tclient \<lparr>KV = ?h, Proxy = proxy ex_flags, NTP = ntp ex_flags,
             ReconnectTimeout = reconnect_timeout ex_flags, UpdateHandler = None\<rparr> False [] ?w
           = (Inr ''client'', ?w)"
    by (simp add: ex_defs sm_defs)
  have c: "RunWithAuth ex_tclient = sm_RunWithAuth ex_authenticate"
    by (simp add: ex_tclient_def)
  have d: "ex_authenticate ''client'' ?w = (None, ?w)" by (simp add: ex_defs sm_defs)
  have e: "ex_task ''client'' ?h ?w = (Some (Err ''chat not found''), ?w)"
    by (simp add: ex_task_def)
  have f: "fst (ex_state []) = []" "ctx_kv ex_ctx = ex_bolt" "namespace ex_flags = ''default''"
    "proxy ex_flags = []" "ntp ex_flags = []" "reconnect_timeout ex_flags = 300000000000"
    by (simp_all add: ex_defs)
  from C9_task_invoked_once
         [where K = "sm_kv ex_constants" and T = ex_tclient and F = ex_flags and ctx = ex_ctx
            and f = ex_task and mws = "[]" and s = "ex_state []" and kvd = ?h
            and client = "''client''" and authenticate = ex_authenticate
            and r = "Some (Err ''chat not found'')"
            and ?w1.0 = ?w and ?w2.0 = ?w and ?w3.0 = ?w and ?w4.0 = ?w,
          OF a b c d e] a d e
  show ?thesis
    by (simp only: f append_Nil simp_thms)
qed

end
